theory Spec2Isabelle
  imports Main
begin

section \<open>Exceptions\<close>

text \<open>
  The exception classes that sndl.py tells apart. Its handlers distinguish
  \<^verbatim>\<open>socket.timeout\<close> and \<^verbatim>\<open>http.client.RemoteDisconnected\<close> from every other
  subclass of \<^verbatim>\<open>Exception\<close>; the two \<^verbatim>\<open>ValueError\<close>s the program raises itself
  carry their message. \<open>FormatError\<close> stands for what \<^verbatim>\<open>str.format\<close> raises
  (ValueError, IndexError, KeyError), \<open>OtherException\<close> for any other subclass of
  \<^verbatim>\<open>Exception\<close> raised by the transport or the file system.
\<close>

datatype exn =
    SocketTimeout
  | RemoteDisconnected
  | ValueError string
  | TypeError string
  | UnboundLocalError string
  | FormatError string
  | OtherException string

section \<open>Strings and numbers as Python has them\<close>

definition is_digit :: "char \<Rightarrow> bool" where
  "is_digit c = (c \<in> set ''0123456789'')"

text \<open>\<^verbatim>\<open>str.strip()\<close>: the white space of the Latin-1 range.\<close>

definition is_space :: "char \<Rightarrow> bool" where
  "is_space c = (of_char c \<in> {9, 10, 11, 12, 13, 28, 29, 30, 31, 32, 133, 160 :: nat})"

definition strip :: "string \<Rightarrow> string" where
  "strip s = rev (dropWhile is_space (rev (dropWhile is_space s)))"

text \<open>\<^verbatim>\<open>s.split(',')\<close>: always at least one piece.\<close>

fun split_comma :: "string \<Rightarrow> string list" where
  "split_comma [] = [[]]"
| "split_comma (c # cs) =
     (if c = CHR '','' then [] # split_comma cs
      else (case split_comma cs of p # ps \<Rightarrow> (c # p) # ps | [] \<Rightarrow> [[c]]))"

text \<open>\<^verbatim>\<open>','.join(ps)\<close>, used to state that splitting loses nothing.\<close>

fun join_comma :: "string list \<Rightarrow> string" where
  "join_comma [] = []"
| "join_comma [p] = p"
| "join_comma (p # q # ps) = p @ CHR '','' # join_comma (q # ps)"

definition digit_val :: "char \<Rightarrow> nat" where
  "digit_val c = of_char c - 48"

definition digit_char :: "nat \<Rightarrow> char" where
  "digit_char n = ''0123456789'' ! n"

text \<open>\<^verbatim>\<open>int(s)\<close> on a string of ASCII digits (what the groups of the range patterns are).\<close>

definition int_of_digits :: "string \<Rightarrow> nat" where
  "int_of_digits s = foldl (\<lambda>a c. 10 * a + digit_val c) 0 s"

text \<open>\<^verbatim>\<open>str(n)\<close> for a non-negative integer.\<close>

fun str_nat :: "nat \<Rightarrow> string" where
  "str_nat n = (if n < 10 then [digit_char n] else str_nat (n div 10) @ [digit_char (n mod 10)])"

declare str_nat.simps [simp del]

section \<open>parse\_url\<close>

text \<open>
  \<^verbatim>\<open>urllib.parse.urlparse\<close> belongs to the standard library: the model starts from its
  result, of which parse\_url reads the scheme, the netloc and the path.
\<close>

record parsed_url =
  scheme :: string
  netloc :: string
  path :: string

text \<open>The dictionary parse\_url returns.\<close>

record target =
  t_scheme :: string
  t_host :: string
  t_port :: int
  t_path :: string
  t_ranges :: "string list"

text \<open>The character class \<^verbatim>\<open>[0-9,-]\<close>.\<close>

definition range_char :: "char \<Rightarrow> bool" where
  "range_char c = (is_digit c \<or> c = CHR '','' \<or> c = CHR ''-'')"

text \<open>
  A match of \<^verbatim>\<open>\[([0-9,-]+)\]\<close> anchored at the head of the string: its length.
  Neither bracket is in the class, so the run of class characters after the opening
  bracket is the only candidate for the group.
\<close>

definition match_here :: "string \<Rightarrow> nat option" where
  "match_here s =
     (case s of
        [] \<Rightarrow> None
      | c # r \<Rightarrow>
          if c = CHR ''[''
             \<and> takeWhile range_char r \<noteq> []
             \<and> take 1 (dropWhile range_char r) = '']''
          then Some (length (takeWhile range_char r) + 2)
          else None)"

text \<open>\<^verbatim>\<open>re.search\<close>: the leftmost match, as \<open>(m.start(), m.end())\<close>.\<close>

fun re_search :: "string \<Rightarrow> (nat \<times> nat) option" where
  "re_search [] = None"
| "re_search (c # cs) =
     (case match_here (c # cs) of
        Some n \<Rightarrow> Some (0, n)
      | None \<Rightarrow> (case re_search cs of
                   None \<Rightarrow> None
                 | Some (s, e) \<Rightarrow> Some (Suc s, Suc e)))"

text \<open>\<^verbatim>\<open>netloc.split(':')\<close>.\<close>

fun split_colon :: "string \<Rightarrow> string list" where
  "split_colon [] = [[]]"
| "split_colon (c # cs) =
     (if c = CHR '':'' then [] # split_colon cs
      else (case split_colon cs of p # ps \<Rightarrow> (c # p) # ps | [] \<Rightarrow> [[c]]))"

text \<open>
  \<^verbatim>\<open>int(s)\<close> on an arbitrary string: surrounding white space, one optional sign, and
  decimal digits with single underscores between them. The white space \<^verbatim>\<open>int\<close> skips
  is narrower than that of \<^verbatim>\<open>str.strip()\<close>: the characters 28 to 31 are not part of
  it (\<^verbatim>\<open>int('\x1c5')\<close> raises ValueError). (The interpreter's optional limit on the
  number of digits is not modelled: integers are unbounded.)
\<close>

definition int_space :: "char \<Rightarrow> bool" where
  "int_space c = (of_char c \<in> {9, 10, 11, 12, 13, 32, 133, 160 :: nat})"

fun digits_us :: "string \<Rightarrow> bool" where
  "digits_us [] = False"
| "digits_us [c] = is_digit c"
| "digits_us (c # d # r) =
     (is_digit c \<and> (if d = CHR ''_'' then digits_us r else digits_us (d # r)))"

definition py_int :: "string \<Rightarrow> int option" where
  "py_int s =
     (let t = rev (dropWhile int_space (rev (dropWhile int_space s)));
          neg = (take 1 t = ''-'');
          body = (if take 1 t = ''-'' \<or> take 1 t = ''+'' then drop 1 t else t)
      in if digits_us body
         then Some ((if neg then -1 else 1) * int (int_of_digits (filter is_digit body)))
         else None)"

definition ranges_of :: "string \<Rightarrow> string list" where
  "ranges_of inner = filter (\<lambda>x. x \<noteq> []) (map strip (split_comma inner))"

text \<open>Line 37: the port, 0 when the netloc has no single colon; None when \<^verbatim>\<open>int\<close> raises.\<close>

definition port_of :: "string \<Rightarrow> int option" where
  "port_of nl =
     (if length (split_colon nl) = 2 then py_int (split_colon nl ! 1) else Some 0)"

definition parse_url :: "parsed_url \<Rightarrow> exn + target" where
  "parse_url u =
     (case port_of (netloc u) of
        None \<Rightarrow> Inl (ValueError ''invalid literal for int() with base 10'')
      | Some port \<Rightarrow>
          (case re_search (path u) of
             None \<Rightarrow> Inl (ValueError ''The range is not specified.'')
           | Some (s, e) \<Rightarrow>
               Inr \<lparr> t_scheme = scheme u,
                     t_host = hd (split_colon (netloc u)),
                     t_port = port,
                     t_path = take s (path u) @ ''[*]'' @ drop e (path u),
                     t_ranges = ranges_of (butlast (tl (take (e - s) (drop s (path u))))) \<rparr>))"

section \<open>get\_digit and parse\_range\<close>

text \<open>\<^verbatim>\<open>re.fullmatch(r'([0-9]+)-([0-9]+)', s)\<close>: the two groups.\<close>

definition match_pair :: "string \<Rightarrow> (string \<times> string) option" where
  "match_pair s =
     (let a = takeWhile is_digit s; rest = dropWhile is_digit s in
      if a \<noteq> [] \<and> take 1 rest = ''-'' \<and> drop 1 rest \<noteq> [] \<and> list_all is_digit (drop 1 rest)
      then Some (a, drop 1 rest) else None)"

text \<open>\<^verbatim>\<open>re.fullmatch(r'([0-9]+)', s)\<close>.\<close>

definition match_single :: "string \<Rightarrow> bool" where
  "match_single s = (s \<noteq> [] \<and> list_all is_digit s)"

definition get_digit :: "string \<Rightarrow> exn + nat" where
  "get_digit range_str =
     (case match_pair range_str of
        Some (a, b) \<Rightarrow> Inr (length a)
      | None \<Rightarrow>
          if match_single range_str then Inr (length range_str)
          else Inl (ValueError ''Wrong range format.''))"

text \<open>The \<^verbatim>\<open>range(begin, end + 1)\<close> object, as the list of its values.\<close>

definition parse_range :: "string \<Rightarrow> exn + nat list" where
  "parse_range range_str =
     (case match_pair range_str of
        Some (a, b) \<Rightarrow>
          (let begin = int_of_digits a; end = int_of_digits b in
           if begin > end then Inr [end ..< begin + 1] else Inr [begin ..< end + 1])
      | None \<Rightarrow>
          if match_single range_str
          then Inr [int_of_digits range_str ..< int_of_digits range_str + 1]
          else Inl (ValueError ''Wrong range format.''))"

section \<open>Building the request path\<close>

text \<open>
  What \<^verbatim>\<open>'{:>0N}'.format(s)\<close> gives for a string \<open>s\<close>: right-aligned in a field of
  width \<open>N\<close>, filled with zeros. A string that is already that long is left as it is.
\<close>

definition zero_pad :: "nat \<Rightarrow> string \<Rightarrow> string" where
  "zero_pad w s = replicate (w - length s) CHR ''0'' @ s"

text \<open>The replacement field \<^verbatim>\<open>'{:>0' + str(digit) + '}'\<close>.\<close>

definition field_spec :: "nat \<Rightarrow> string" where
  "field_spec digit = ''{:>0'' @ str_nat digit @ ''}''"

text \<open>\<^verbatim>\<open>s.replace('[*]', new)\<close>: every occurrence, from the left.\<close>

function replace_marker :: "string \<Rightarrow> string \<Rightarrow> string" where
  "replace_marker new [] = []"
| "replace_marker new (c # cs) =
     (if take 3 (c # cs) = ''[*]'' then new @ replace_marker new (drop 2 cs)
      else c # replace_marker new cs)"
  by pat_completeness auto
termination
  by (relation "measure (\<lambda>(new, s). length s)") auto

text \<open>\<^verbatim>\<open>s.count('[*]')\<close>: the marker cannot overlap itself.\<close>

fun count_marker :: "string \<Rightarrow> nat" where
  "count_marker [] = 0"
| "count_marker (c # cs) = (if take 3 (c # cs) = ''[*]'' then 1 else 0) + count_marker cs"

text \<open>The text of a replacement field of the form \<^verbatim>\<open>:>0N\<close>: its width.\<close>

definition field_width :: "string \<Rightarrow> nat option" where
  "field_width fld =
     (if take 3 fld = '':>0'' \<and> drop 3 fld \<noteq> [] \<and> list_all is_digit (drop 3 fld)
      then Some (int_of_digits (drop 3 fld)) else None)"

text \<open>
  \<^verbatim>\<open>fmt.format(arg)\<close> with one positional argument, on the fragment of format strings
  that download can build from a path without braces: literal text, the doubled braces
  \<^verbatim>\<open>{{\<close> and \<^verbatim>\<open>}}\<close>, a single closing brace (an error), and automatically numbered
  replacement fields of the form \<^verbatim>\<open>{:>0N}\<close>, of which only the first finds an argument.
  \<open>k\<close> counts the fields numbered so far. Any other replacement field is outside the
  fragment and is reported as a format error; the results below either assume a path
  without braces or evaluate one.
\<close>

function py_format :: "string \<Rightarrow> string \<Rightarrow> nat \<Rightarrow> exn + string" where
  "py_format [] arg k = Inr []"
| "py_format (c # r) arg k =
     (if c = CHR ''{'' then
        (if take 1 r = ''{'' then map_sum id (\<lambda>t. CHR ''{'' # t) (py_format (drop 1 r) arg k)
         else if dropWhile (\<lambda>x. x \<noteq> CHR ''}'') r = []
         then Inl (FormatError ''expected } before end of string'')
         else (case field_width (takeWhile (\<lambda>x. x \<noteq> CHR ''}'') r) of
                 None \<Rightarrow> Inl (FormatError ''replacement field outside the modelled fragment'')
               | Some w \<Rightarrow>
                   if k \<ge> 1
                   then Inl (FormatError ''Replacement index out of range for positional args tuple'')
                   else map_sum id (\<lambda>t. zero_pad w arg @ t)
                          (py_format (drop 1 (dropWhile (\<lambda>x. x \<noteq> CHR ''}'') r)) arg (Suc k))))
      else if c = CHR ''}'' then
        (if take 1 r = ''}'' then map_sum id (\<lambda>t. CHR ''}'' # t) (py_format (drop 1 r) arg k)
         else Inl (FormatError ''Single } encountered in format string''))
      else map_sum id (\<lambda>t. c # t) (py_format r arg k))"
  by pat_completeness auto
termination
  by (relation "measure (\<lambda>(f, arg, k). length f)")
     (auto simp: le_imp_less_Suc length_dropWhile_le intro: le_less_trans [OF diff_le_self])

text \<open>\<^verbatim>\<open>os.path.basename(p)\<close>: what follows the last slash.\<close>

definition basename :: "string \<Rightarrow> string" where
  "basename p = rev (takeWhile (\<lambda>c. c \<noteq> CHR ''/'') (rev p))"

text \<open>Line 192: \<^verbatim>\<open>o['path'].replace('[*]', '{:>0' + str(digit) + '}').format(str(i))\<close>.\<close>

definition item_path :: "string \<Rightarrow> nat \<Rightarrow> nat \<Rightarrow> exn + string" where
  "item_path tmpl digit i = py_format (replace_marker (field_spec digit) tmpl) (str_nat i) 0"

section \<open>The connection, the output and the files\<close>

text \<open>
  The connection object download builds (line 181): scheme, host, port and timeout.
  It is built once; do\_reconnecting receives the same object.
\<close>

record conn =
  c_scheme :: string
  c_host :: string
  c_port :: int
  c_timeout :: int

text \<open>
  What the program does to the outside, in order: calls of the transport and of the
  file system, calls of \<^verbatim>\<open>time.sleep(1)\<close>, and the lines it prints (one constructor
  for each \<^verbatim>\<open>print\<close> of the source, with the values it formats).
\<close>

datatype event =
    Connect conn
  | Close conn
  | Request string
  | DiscardBody
  | OpenFile string
  | Sleep
  | PrintConnection conn
  | PrintSeparator
  | PrintItem string string
  | PrintDisconnected int
  | PrintResult int string
  | PrintException exn
  | PrintCountdown int
  | PrintReconnecting
  | PrintError exn

text \<open>The files of the output directory: name to content.\<close>

type_synonym fs = "string \<rightharpoonup> string"

section \<open>The transport as the program sees it\<close>

text \<open>
  One call of \<^verbatim>\<open>response.read(4096)\<close>: it returns bytes (none at the end of the
  stream), together with what \<^verbatim>\<open>response.isclosed()\<close> would answer afterwards, or it
  raises.
\<close>

datatype read_step = Returns string bool | Raises exn

text \<open>
  A response: status line, the Content-Length header as \<^verbatim>\<open>getheader\<close> returns it,
  the successive results of \<^verbatim>\<open>read(4096)\<close> (after the last one the stream is at its
  end and closed), and whether the plain \<^verbatim>\<open>read()\<close> that discards a body raises.
\<close>

record response =
  status :: int
  reason :: string
  content_length_header :: "string option"
  reads :: "read_step list"
  read_all :: "exn option"

text \<open>What the outside does during one call of get\_content.\<close>

record attempt =
  request_raises :: "exn option"
  getresponse :: "exn + response"
  open_raises :: "exn option"

text \<open>
  The outside during a whole run: the result of the k-th call of \<^verbatim>\<open>conn.connect()\<close>
  (call 0 is the one of line 183) and the behaviour during the k-th get\_content.
\<close>

record world =
  connects :: "nat \<Rightarrow> exn option"
  attempts :: "nat \<Rightarrow> attempt"

section \<open>get\_content\<close>

text \<open>
  Lines 128 to 132, both loops: the remaining content length and the bytes written.
  A non-empty chunk is written and counted; an empty one leaves the inner loop, and
  the outer loop stops if nothing remains or the response is closed.
\<close>

fun read_loop :: "read_step list \<Rightarrow> int \<Rightarrow> string \<Rightarrow> exn option \<times> int \<times> string" where
  "read_loop [] content_length written = (None, content_length, written)"
| "read_loop (Raises e # rs) content_length written = (Some e, content_length, written)"
| "read_loop (Returns chunk closed # rs) content_length written =
     (if chunk \<noteq> [] then read_loop rs (content_length - int (length chunk)) (written @ chunk)
      else if content_length \<le> 0 \<or> closed then (None, content_length, written)
      else read_loop rs content_length written)"

text \<open>
  The body of the \<^verbatim>\<open>try\<close> (lines 122 to 138): the events, the files, and either the
  exception that leaves the body or whether it executed \<^verbatim>\<open>return True\<close>.
\<close>

definition try_body :: "attempt \<Rightarrow> string \<Rightarrow> string \<Rightarrow> fs \<Rightarrow> event list \<times> fs \<times> (exn + bool)" where
  "try_body a content_path file_path fs =
     (case request_raises a of
        Some e \<Rightarrow> ([Request content_path], fs, Inl e)
      | None \<Rightarrow>
     (case getresponse a of
        Inl e \<Rightarrow> ([Request content_path], fs, Inl e)
      | Inr r \<Rightarrow>
          if status r < 300 then
            (case content_length_header r of
               None \<Rightarrow> ([Request content_path], fs, Inl (TypeError ''int() argument must be a string''))
             | Some h \<Rightarrow>
            (case py_int h of
               None \<Rightarrow> ([Request content_path], fs,
                         Inl (ValueError ''invalid literal for int() with base 10''))
             | Some n \<Rightarrow>
            (case open_raises a of
               Some e \<Rightarrow> ([Request content_path, OpenFile file_path], fs, Inl e)
             | None \<Rightarrow>
            (case read_loop (reads r) n [] of
               (Some e, content_length, written) \<Rightarrow>
                 ([Request content_path, OpenFile file_path], fs(file_path \<mapsto> written), Inl e)
             | (None, content_length, written) \<Rightarrow>
                 if content_length \<noteq> 0
                 then ([Request content_path, OpenFile file_path, PrintDisconnected content_length],
                       fs(file_path \<mapsto> written), Inr True)
                 else ([Request content_path, OpenFile file_path],
                       fs(file_path \<mapsto> written), Inr False)))))
          else
            (case read_all r of
               Some e \<Rightarrow> ([Request content_path, PrintResult (status r) (reason r), DiscardBody],
                          fs, Inl e)
             | None \<Rightarrow> ([Request content_path, PrintResult (status r) (reason r), DiscardBody],
                        fs, Inr False))))"

text \<open>
  get\_content: the two lines printed first, the body, and the two handlers. The result
  is the events, the files and the value returned (True asks for a reconnect).
\<close>

definition get_content :: "attempt \<Rightarrow> string \<Rightarrow> string \<Rightarrow> fs \<Rightarrow> event list \<times> fs \<times> bool" where
  "get_content a content_path file_path fs =
     (case try_body a content_path file_path fs of
        (evs, fs', Inr b) \<Rightarrow> ([PrintSeparator, PrintItem content_path file_path] @ evs, fs', b)
      | (evs, fs', Inl e) \<Rightarrow>
          ([PrintSeparator, PrintItem content_path file_path] @ evs @ [PrintException e], fs',
           e = SocketTimeout \<or> e = RemoteDisconnected))"

section \<open>do\_reconnecting\<close>

text \<open>The loop over \<^verbatim>\<open>range(interval, -1, -1)\<close>: a line and a sleep for each value.\<close>

definition countdown :: "int \<Rightarrow> event list" where
  "countdown interval = concat (map (\<lambda>s. [PrintCountdown s, Sleep]) (rev [0..interval]))"

text \<open>The state of a run between two statements of download.\<close>

record state =
  events :: "event list"
  files :: fs
  n_connects :: nat
  n_attempts :: nat
  reconnect :: bool

text \<open>
  do\_reconnecting: the countdown, then \<^verbatim>\<open>conn.connect()\<close> on the connection it was
  given; the last line is printed only if the connect returns.
\<close>

definition do_reconnecting :: "world \<Rightarrow> conn \<Rightarrow> int \<Rightarrow> state \<Rightarrow> exn option \<times> state" where
  "do_reconnecting w c interval s =
     (case connects w (n_connects s) of
        Some e \<Rightarrow>
          (Some e, s\<lparr>events := events s @ countdown interval @ [Connect c],
                     n_connects := Suc (n_connects s)\<rparr>)
      | None \<Rightarrow>
          (None, s\<lparr>events := events s @ countdown interval @ [Connect c, PrintReconnecting],
                   n_connects := Suc (n_connects s)\<rparr>))"

section \<open>download\<close>

text \<open>Lines 191 to 193, the body of the inner loop, for the number \<open>i\<close>.\<close>

definition process_item :: "world \<Rightarrow> conn \<Rightarrow> string \<Rightarrow> nat \<Rightarrow> nat \<Rightarrow> state \<Rightarrow> exn option \<times> state" where
  "process_item w c tmpl digit i s =
     (case (if reconnect s then do_reconnecting w c (60 * 3) s else (None, s)) of
        (Some e, s1) \<Rightarrow> (Some e, s1)
      | (None, s1) \<Rightarrow>
          (case item_path tmpl digit i of
             Inl e \<Rightarrow> (Some e, s1)
           | Inr p \<Rightarrow>
               (case get_content (attempts w (n_attempts s1)) p (basename p) (files s1) of
                  (evs, fs', b) \<Rightarrow>
                    (None, s1\<lparr>events := events s1 @ evs, files := fs',
                              n_attempts := Suc (n_attempts s1), reconnect := b\<rparr>))))"

text \<open>Line 190: the loop over the numbers of one range.\<close>

fun items_loop :: "world \<Rightarrow> conn \<Rightarrow> string \<Rightarrow> nat \<Rightarrow> nat list \<Rightarrow> state \<Rightarrow> exn option \<times> state" where
  "items_loop w c tmpl digit [] s = (None, s)"
| "items_loop w c tmpl digit (i # is) s =
     (case process_item w c tmpl digit i s of
        (Some e, s1) \<Rightarrow> (Some e, s1)
      | (None, s1) \<Rightarrow> items_loop w c tmpl digit is s1)"

text \<open>Lines 188 to 190: the loop over the range strings.\<close>

fun ranges_loop :: "world \<Rightarrow> conn \<Rightarrow> string \<Rightarrow> string list \<Rightarrow> state \<Rightarrow> exn option \<times> state" where
  "ranges_loop w c tmpl [] s = (None, s)"
| "ranges_loop w c tmpl (r # rs) s =
     (case get_digit r of
        Inl e \<Rightarrow> (Some e, s)
      | Inr digit \<Rightarrow>
          (case parse_range r of
             Inl e \<Rightarrow> (Some e, s)
           | Inr numbers \<Rightarrow>
               (case items_loop w c tmpl digit numbers s of
                  (Some e, s1) \<Rightarrow> (Some e, s1)
                | (None, s1) \<Rightarrow> ranges_loop w c tmpl rs s1)))"

text \<open>
  Lines 178 to 181, the connection object. A scheme other than http and https leaves
  \<^verbatim>\<open>client\<close> unbound. Without an explicit port the call is
  \<^verbatim>\<open>client(host, timeout = timeout)\<close>: the class's default port (80 for http, 443 for
  https) and a timeout of five minutes. With an explicit port the call is
  \<^verbatim>\<open>client(host, port, timeout)\<close>, the timeout in third position: that is the timeout
  of \<^verbatim>\<open>HTTPConnection\<close>, but not of \<^verbatim>\<open>HTTPSConnection\<close>, whose third parameter is the
  key file (and which takes no third positional argument in later versions), so for
  https with an explicit port the constructor raises TypeError and there is no
  connection object.
\<close>

definition make_conn :: "target \<Rightarrow> exn + conn" where
  "make_conn o' =
     (if t_scheme o' \<noteq> ''http'' \<and> t_scheme o' \<noteq> ''https''
      then Inl (UnboundLocalError ''client'')
      else if t_port o' = 0
      then Inr \<lparr> c_scheme = t_scheme o', c_host = t_host o',
                 c_port = (if t_scheme o' = ''https'' then 443 else 80),
                 c_timeout = 60 * 5 \<rparr>
      else if t_scheme o' = ''https''
      then Inl (TypeError ''certfile should be a valid filesystem path'')
      else Inr \<lparr> c_scheme = t_scheme o', c_host = t_host o', c_port = t_port o',
                 c_timeout = 60 * 5 \<rparr>)"

text \<open>
  The result of download: the exception that leaves it, if one does (the interpreter
  then prints a traceback and exits with status 1; otherwise the script ends with
  status 0), and the state reached.
\<close>

record run =
  uncaught :: "exn option"
  final :: state


definition initial :: "fs \<Rightarrow> state" where
  "initial fs = \<lparr> events = [], files = fs, n_connects = 0, n_attempts = 0, reconnect = False \<rparr>"

text \<open>
  download (lines 176 to 197, without the \<^verbatim>\<open>verbose\<close> switch, which only sets the
  transport's debug level). An exception of parse\_url, of the construction of the
  connection object or of the first connect leaves the function; one raised inside the
  \<^verbatim>\<open>try\<close> is printed, the connection is closed, and download returns.
\<close>

definition download :: "world \<Rightarrow> parsed_url \<Rightarrow> fs \<Rightarrow> run" where
  "download w u fs =
     (case parse_url u of
        Inl e \<Rightarrow> \<lparr> uncaught = Some e, final = initial fs \<rparr>
      | Inr o' \<Rightarrow>
          (case make_conn o' of
             Inl e \<Rightarrow> \<lparr> uncaught = Some e, final = initial fs \<rparr>
           | Inr c \<Rightarrow>
               (case connects w 0 of
                  Some e \<Rightarrow>
                    \<lparr> uncaught = Some e,
                      final = (initial fs)\<lparr>events := [Connect c], n_connects := 1\<rparr> \<rparr>
                | None \<Rightarrow>
                    (case ranges_loop w c (t_path o') (t_ranges o')
                            ((initial fs)\<lparr>events := [Connect c, PrintConnection c],
                                          n_connects := 1\<rparr>) of
                       (Some e, s) \<Rightarrow>
                         \<lparr> uncaught = None,
                           final = s\<lparr>events := events s @ [PrintError e, Close c]\<rparr> \<rparr>
                     | (None, s) \<Rightarrow>
                         \<lparr> uncaught = None,
                           final = s\<lparr>events := events s @ [Close c]\<rparr> \<rparr>))))"

section \<open>Notions used to state the properties\<close>

text \<open>The paths requested, in order, among the events of a run.\<close>

definition requested :: "event list \<Rightarrow> string list" where
  "requested evs = concat (map (\<lambda>e. case e of Request p \<Rightarrow> [p] | _ \<Rightarrow> []) evs)"






text \<open>
  Among the events of one item: the line \<^verbatim>\<open>Disconnected: n bytes remaining\<close>, or the
  line printed by the handler of \<^verbatim>\<open>socket.timeout\<close> and \<^verbatim>\<open>RemoteDisconnected\<close>. These
  are the outcomes the specification calls FailedIncomplete and FailedConnection.
\<close>

definition failed_transfer :: "event list \<Rightarrow> bool" where
  "failed_transfer evs =
     list_ex (\<lambda>e. case e of
                     PrintDisconnected n \<Rightarrow> True
                   | PrintException x \<Rightarrow> x = SocketTimeout \<or> x = RemoteDisconnected
                   | _ \<Rightarrow> False) evs"


section \<open>Example transports\<close>

text \<open>A response of \<open>declared\<close> bytes of which \<open>sent\<close> arrive before the stream closes.\<close>

definition body_response :: "nat \<Rightarrow> nat \<Rightarrow> response" where
  "body_response declared sent =
     \<lparr> status = 200, reason = ''OK'', content_length_header = Some (str_nat declared),
       reads = [Returns (replicate sent CHR ''x'') False, Returns [] True], read_all = None \<rparr>"

text \<open>A 404 whose body is read to the end, and one whose body read times out.\<close>

definition not_found :: response where
  "not_found = \<lparr> status = 404, reason = ''Not Found'', content_length_header = None,
                  reads = [], read_all = None \<rparr>"


definition answers :: "response \<Rightarrow> attempt" where
  "answers r = \<lparr> request_raises = None, getresponse = Inr r, open_raises = None \<rparr>"






section \<open>Auxiliary facts\<close>

lemma range_char_brackets [simp]:
  "\<not> range_char CHR ''[''" "\<not> range_char CHR '']''" "\<not> range_char CHR ''*''"
  by (simp_all add: range_char_def is_digit_def)

lemma match_here_extend:
  "match_here (c # p) = None \<Longrightarrow> match_here (c # p @ CHR ''['' # rest) = None"
proof (cases "\<forall>x\<in>set p. range_char x")
  case True
  then show ?thesis by (simp add: match_here_def takeWhile_append dropWhile_append)
next
  case False
  then have ne: "dropWhile range_char p \<noteq> []" by (simp add: dropWhile_eq_Nil_conv)
  then obtain y ys where d: "dropWhile range_char p = y # ys"
    by (cases "dropWhile range_char p") auto
  assume "match_here (c # p) = None"
  with False d show ?thesis
    by (auto simp: match_here_def takeWhile_append dropWhile_append split: if_splits)
qed

lemma re_search_shift:
  "re_search pre = None \<Longrightarrow>
   re_search (pre @ CHR ''['' # rest) =
     (case re_search (CHR ''['' # rest) of None \<Rightarrow> None
      | Some (s, e) \<Rightarrow> Some (length pre + s, length pre + e))"
proof (induction pre)
  case Nil
  then show ?case by (simp split: option.splits)
next
  case (Cons c pre)
  from Cons.prems have m: "match_here (c # pre) = None" and r: "re_search pre = None"
    by (auto split: option.splits)
  from match_here_extend [OF m] have "match_here (c # pre @ CHR ''['' # rest) = None" .
  with Cons.IH [OF r] show ?case
    by (simp split: option.splits)
qed

lemma re_search_bracket:
  "inner \<noteq> [] \<Longrightarrow> list_all range_char inner \<Longrightarrow>
   re_search (CHR ''['' # inner @ CHR '']'' # suf) = Some (0, length inner + 2)"
  by (simp add: match_here_def takeWhile_append dropWhile_append list_all_iff)

lemma re_search_found:
  assumes "re_search pre = None" "inner \<noteq> []" "list_all range_char inner"
  shows "re_search (pre @ ''['' @ inner @ '']'' @ suf) =
           Some (length pre, length pre + length inner + 2)"
  using re_search_shift [OF assms(1), of "inner @ CHR '']'' # suf"]
    re_search_bracket [OF assms(2,3), of suf]
  by simp

lemma re_search_empty:
  assumes "re_search pre = None" "re_search suf = None"
  shows "re_search (pre @ ''[]'' @ suf) = None"
proof -
  have "re_search (CHR ''['' # CHR '']'' # suf) = None"
    using assms(2) by (simp add: match_here_def)
  with re_search_shift [OF assms(1), of "CHR '']'' # suf"] show ?thesis by simp
qed

lemma count_sleep_concat:
  "length (filter (\<lambda>e. e = Sleep) (concat (map (\<lambda>s. [PrintCountdown s, Sleep]) xs))) = length xs"
  by (induction xs) auto

lemma countdown_sleeps: "length (filter (\<lambda>e. e = Sleep) (countdown n)) = nat (n + 1)"
  by (simp add: countdown_def count_sleep_concat)

lemma split_comma_nonempty [simp]: "split_comma s \<noteq> []"
  by (induction s) (auto split: list.splits)

lemma join_split_comma: "join_comma (split_comma s) = s"
proof (induction s)
  case Nil
  show ?case by simp
next
  case (Cons c s)
  show ?case
  proof (cases "c = CHR '',''")
    case True
    with Cons show ?thesis by (cases "split_comma s") auto
  next
    case False
    with Cons show ?thesis
      by (cases "split_comma s"; cases "tl (split_comma s)") auto
  qed
qed

lemma split_comma_pieces: "p \<in> set (split_comma s) \<Longrightarrow> set p \<subseteq> set s"
proof (induction s arbitrary: p)
  case Nil
  then show ?case by simp
next
  case (Cons c s)
  obtain q qs where q: "split_comma s = q # qs"
    by (cases "split_comma s") auto
  with Cons.IH have "set q \<subseteq> set s" "\<forall>x\<in>set qs. set x \<subseteq> set s" by auto
  with Cons.prems q show ?case
    by (auto split: if_splits)
qed

lemma strip_no_space: "\<forall>c\<in>set s. \<not> is_space c \<Longrightarrow> strip s = s"
proof -
  assume a: "\<forall>c\<in>set s. \<not> is_space c"
  then have "dropWhile is_space s = s" by (cases s) auto
  moreover from a have "dropWhile is_space (rev s) = rev s" by (cases "rev s") (auto simp: rev_eq_Cons_iff)
  ultimately show ?thesis by (simp add: strip_def)
qed

lemma range_char_no_space: "range_char c \<Longrightarrow> \<not> is_space c"
  by (auto simp: range_char_def is_digit_def is_space_def)

lemma ranges_of_plain:
  assumes "list_all range_char inner"
  shows "ranges_of inner = filter (\<lambda>x. x \<noteq> []) (split_comma inner)"
proof -
  have "map strip (split_comma inner) = split_comma inner"
  proof (rule map_idI)
    fix p assume "p \<in> set (split_comma inner)"
    then have "set p \<subseteq> set inner" by (rule split_comma_pieces)
    with assms have "\<forall>c\<in>set p. \<not> is_space c"
      by (auto simp: list_all_iff dest: range_char_no_space)
    then show "strip p = p" by (rule strip_no_space)
  qed
  then show ?thesis by (simp add: ranges_of_def)
qed

lemma count_marker_append:
  "count_marker (pre @ ''[*]'' @ suf) = count_marker pre + 1 + count_marker suf"
proof (induction pre)
  case Nil
  show ?case by simp
next
  case (Cons c pre)
  have "(take 3 (c # pre @ ''[*]'' @ suf) = ''[*]'') = (take 3 (c # pre) = ''[*]'')"
    by (cases pre; cases "tl pre") auto
  with Cons show ?case by simp
qed

lemma parse_url_found:
  assumes "port_of nl = Some port" "re_search pre = None" "inner \<noteq> []" "list_all range_char inner"
  shows "parse_url \<lparr>scheme = sch, netloc = nl, path = pre @ ''['' @ inner @ '']'' @ suf\<rparr> =
     Inr \<lparr> t_scheme = sch, t_host = hd (split_colon nl), t_port = port,
           t_path = pre @ ''[*]'' @ suf,
           t_ranges = filter (\<lambda>x. x \<noteq> []) (split_comma inner) \<rparr>"
  using assms(1) re_search_found [OF assms(2-4), of suf] ranges_of_plain [OF assms(4)]
  by (simp add: parse_url_def butlast_append)







lemma str_nat_nonempty [simp]: "str_nat n \<noteq> []"
  by (subst str_nat.simps) simp



lemma not_digit_dash [simp]: "\<not> is_digit CHR ''-''" "\<not> is_digit CHR ''}''"
  by (simp_all add: is_digit_def)


lemma match_pair_digits: "list_all is_digit s \<Longrightarrow> match_pair s = None"
proof -
  assume "list_all is_digit s"
  then have d: "dropWhile is_digit s = []" by (simp add: list_all_iff)
  show ?thesis by (simp add: match_pair_def Let_def d)
qed












lemma requested_append [simp]: "requested (a @ b) = requested a @ requested b"
  by (simp add: requested_def)

lemma requested_countdown [simp]: "requested (countdown n) = []"
  by (simp add: requested_def countdown_def)

lemma requested_simps [simp]:
  "requested [] = []"
  "requested (Request p # es) = p # requested es"
  "requested (Connect c # es) = requested es"
  "requested (Close c # es) = requested es"
  "requested (DiscardBody # es) = requested es"
  "requested (OpenFile f # es) = requested es"
  "requested (Sleep # es) = requested es"
  "requested (PrintConnection c # es) = requested es"
  "requested (PrintSeparator # es) = requested es"
  "requested (PrintItem p f # es) = requested es"
  "requested (PrintDisconnected n # es) = requested es"
  "requested (PrintResult n r # es) = requested es"
  "requested (PrintException e # es) = requested es"
  "requested (PrintCountdown k # es) = requested es"
  "requested (PrintReconnecting # es) = requested es"
  "requested (PrintError e # es) = requested es"
  by (simp_all add: requested_def)

lemma try_body_requested: "requested (fst (try_body a p f fs)) = [p]"
  by (simp add: try_body_def split: option.splits sum.splits prod.splits)

lemma get_content_requested: "requested (fst (get_content a p f fs)) = [p]"
  using try_body_requested [of a p f fs]
  by (cases "try_body a p f fs") (auto simp: get_content_def split: sum.splits)















lemma try_body_no_file:
  assumes "request_raises a \<noteq> None \<or> (\<exists>e. getresponse a = Inl e)
           \<or> (\<exists>r. getresponse a = Inr r \<and>
                 (300 \<le> status r \<or> content_length_header r = None
                  \<or> (\<exists>h. content_length_header r = Some h \<and> py_int h = None)))"
  shows "fst (snd (try_body a p f fs)) = fs \<and> OpenFile f \<notin> set (fst (try_body a p f fs))"
  using assms unfolding try_body_def
  by (auto split: option.splits sum.splits)

lemma try_body_file:
  assumes "OpenFile x \<in> set (fst (try_body a p f fs)) \<or> fst (snd (try_body a p f fs)) \<noteq> fs"
  shows "request_raises a = None \<and>
         (\<exists>r h n. getresponse a = Inr r \<and> status r < 300
                   \<and> content_length_header r = Some h \<and> py_int h = Some n)"
  using assms unfolding try_body_def
  by (auto split: option.splits sum.splits prod.splits if_splits)

lemma try_body_written:
  assumes "request_raises a = None" "getresponse a = Inr r" "status r < 300"
    "content_length_header r = Some h" "py_int h = Some n" "open_raises a = None"
  shows "fst (snd (try_body a p f fs)) = fs(f \<mapsto> snd (snd (read_loop (reads r) n [])))"
  using assms unfolding try_body_def
  by (auto split: option.splits sum.splits prod.splits if_splits)

lemma get_content_parts:
  "fst (snd (get_content a p f fs)) = fst (snd (try_body a p f fs))"
  "(OpenFile x \<in> set (fst (get_content a p f fs))) = (OpenFile x \<in> set (fst (try_body a p f fs)))"
  unfolding get_content_def
  by (cases "try_body a p f fs"; auto split: sum.splits)+

lemma failed_transfer_append [simp]:
  "failed_transfer (a @ b) = (failed_transfer a \<or> failed_transfer b)"
  by (simp add: failed_transfer_def)

lemma failed_transfer_countdown [simp]: "\<not> failed_transfer (countdown n)"
  by (simp add: failed_transfer_def countdown_def list_ex_iff)

lemma failed_transfer_reconnect [simp]:
  "\<not> failed_transfer [Connect c, PrintReconnecting]" "\<not> failed_transfer []"
  by (simp_all add: failed_transfer_def)



lemma get_content_head:
  "take 3 (fst (get_content a p f fs)) = [PrintSeparator, PrintItem p f, Request p]"
  unfolding get_content_def try_body_def
  by (auto split: option.splits sum.splits prod.splits if_splits)

lemma get_content_tail: "requested (drop 3 (fst (get_content a p f fs))) = []"
proof -
  have "requested (take 3 (fst (get_content a p f fs)) @ drop 3 (fst (get_content a p f fs))) = [p]"
    by (simp only: append_take_drop_id get_content_requested)
  then show ?thesis by (simp add: get_content_head)
qed









lemma make_conn_https_port:
  "t_scheme t = ''https'' \<Longrightarrow> t_port t \<noteq> 0 \<Longrightarrow>
   make_conn t = Inl (TypeError ''certfile should be a valid filesystem path'')"
  by (simp add: make_conn_def)

lemma download_https_port:
  assumes "parse_url u = Inr t" "t_scheme t = ''https''" "t_port t \<noteq> 0"
  shows "download w u fs =
    \<lparr> uncaught = Some (TypeError ''certfile should be a valid filesystem path''),
      final = initial fs \<rparr>"
  using assms(1) make_conn_https_port [OF assms(2,3)] by (simp add: download_def)

section \<open>The claims\<close>

subsection \<open>C8: the empty bracket\<close>

text \<open>
  C8, as the code has it. A path whose bracket is empty, \<^verbatim>\<open>[]\<close>, and that holds no
  bracketed expression of digits, commas and hyphens elsewhere, is not parsed:
  the pattern asks for at least one character between the brackets, so parse\_url
  (the port, if one is written, being an integer) raises the ValueError
  \<^verbatim>\<open>The range is not specified.\<close> and returns no target.
\<close>

theorem empty_bracket_not_parsed:
  "port_of nl = Some port \<Longrightarrow> re_search pre = None \<Longrightarrow> re_search suf = None \<Longrightarrow>
   parse_url \<lparr>scheme = sch, netloc = nl, path = pre @ ''[]'' @ suf\<rparr>
     = Inl (ValueError ''The range is not specified.'')"
  using re_search_empty [of pre suf]
  by (simp add: parse_url_def)

text \<open>C8, an instance: the path \<^verbatim>\<open>/a[].jpg\<close>.\<close>

theorem empty_bracket_witness:
  "port_of ''www.example.com'' = Some 0 \<and> re_search ''/a'' = None \<and> re_search ''.jpg'' = None \<and>
   parse_url \<lparr>scheme = ''http'', netloc = ''www.example.com'',
              path = ''/a'' @ ''[]'' @ ''.jpg''\<rparr> = Inl (ValueError ''The range is not specified.'')"
proof -
  have h1: "port_of ''www.example.com'' = Some 0" by (simp add: port_of_def)
  have h2: "re_search ''/a'' = None" and h3: "re_search ''.jpg'' = None"
    by (simp_all add: match_here_def)
  show ?thesis
    by (intro conjI h1 h2 h3 empty_bracket_not_parsed [OF h1 h2 h3])
qed

text \<open>
  C8 as stated fails: for \<^verbatim>\<open>http://www.example.com/a[].jpg\<close> the parser does not
  return a target with no range strings, it raises.
\<close>

theorem empty_bracket_counterexample:
  "parse_url \<lparr>scheme = ''http'', netloc = ''www.example.com'', path = ''/a[].jpg''\<rparr>
     = Inl (ValueError ''The range is not specified.'')"
  by (simp add: parse_url_def port_of_def match_here_def)

subsection \<open>C9: the countdown\<close>

text \<open>
  C9 at the default interval: do\_reconnecting with \<^verbatim>\<open>interval = 60 * 3\<close> sleeps 181
  times, one second each, not 180: the loop runs over 180, 179, ..., 0.
\<close>

theorem countdown_default:
  "length (filter (\<lambda>e. e = Sleep) (events (snd (do_reconnecting w c (60 * 3) s))))
     = length (filter (\<lambda>e. e = Sleep) (events s)) + 181"
  by (simp add: do_reconnecting_def countdown_sleeps split: option.splits)

subsection \<open>C7: the path template and the range strings\<close>

text \<open>
  C7, as the code has it. For a path \<open>pre [inner] suf\<close> whose bracket is the first
  bracketed expression of digits, commas and hyphens, parse\_url returns the template
  \<open>pre [*] suf\<close> and the non-empty comma-separated pieces of \<open>inner\<close>, in their
  order (joining all pieces with commas gives \<open>inner\<close> back). The template holds one
  marker more than \<open>pre\<close> and \<open>suf\<close> together: exactly one when the rest of the path
  does not itself contain the text \<^verbatim>\<open>[*]\<close>.
\<close>

theorem parse_url_template:
  assumes "port_of nl = Some port" "re_search pre = None" "inner \<noteq> []" "list_all range_char inner"
  shows "\<exists>t. parse_url \<lparr>scheme = sch, netloc = nl, path = pre @ ''['' @ inner @ '']'' @ suf\<rparr> = Inr t
           \<and> t_path t = pre @ ''[*]'' @ suf
           \<and> count_marker (t_path t) = count_marker pre + 1 + count_marker suf
           \<and> t_ranges t = filter (\<lambda>x. x \<noteq> []) (split_comma inner)
           \<and> join_comma (split_comma inner) = inner"
  using parse_url_found [OF assms, of sch suf] count_marker_append [of pre suf]
  by (simp add: join_split_comma)

text \<open>C7, an instance: \<^verbatim>\<open>http://www.example.com/c[1,2-5,7,10-13,22-25].jpg\<close>.\<close>

theorem parse_url_template_witness:
  "port_of ''www.example.com'' = Some 0 \<and> re_search ''/c'' = None
   \<and> ''1,2-5,7,10-13,22-25'' \<noteq> [] \<and> list_all range_char ''1,2-5,7,10-13,22-25''
   \<and> (\<exists>t. parse_url \<lparr>scheme = ''http'', netloc = ''www.example.com'',
                      path = ''/c'' @ ''['' @ ''1,2-5,7,10-13,22-25'' @ '']'' @ ''.jpg''\<rparr> = Inr t
           \<and> t_path t = ''/c[*].jpg''
           \<and> count_marker (t_path t) = 1
           \<and> t_ranges t = [''1'', ''2-5'', ''7'', ''10-13'', ''22-25''])"
proof -
  have h1: "port_of ''www.example.com'' = Some 0" by (simp add: port_of_def)
  have h2: "re_search ''/c'' = None" by (simp add: match_here_def)
  have h3: "''1,2-5,7,10-13,22-25'' \<noteq> []" by simp
  have h4: "list_all range_char ''1,2-5,7,10-13,22-25''" by (simp add: range_char_def is_digit_def)
  from parse_url_template [OF h1 h2 h3 h4, of "''http''" "''.jpg''"] h1 h2 h4
  show ?thesis by simp
qed

text \<open>
  C7 as stated fails: the path \<^verbatim>\<open>/a[*]/b[1-2].jpg\<close> has a bracketed range, and the
  template returned for it holds two markers.
\<close>

theorem two_markers_counterexample:
  "parse_url \<lparr>scheme = ''http'', netloc = ''www.example.com'', path = ''/a[*]/b[1-2].jpg''\<rparr>
     = Inr \<lparr>t_scheme = ''http'', t_host = ''www.example.com'', t_port = 0,
            t_path = ''/a[*]/b[*].jpg'', t_ranges = [''1-2'']\<rparr>
   \<and> count_marker ''/a[*]/b[*].jpg'' = 2"
  by (simp add: parse_url_def port_of_def match_here_def ranges_of_def strip_def is_space_def
      range_char_def is_digit_def)

subsection \<open>C5: a range written from the larger to the smaller number\<close>



subsection \<open>C6: padding with zeros\<close>



subsection \<open>C1: a range string that is not well formed\<close>




subsection \<open>C3: the run goes through every item\<close>




subsection \<open>C10: when the destination file is created\<close>

text \<open>
  C10. get\_content opens the destination file, and so creates or changes a file, only
  when the request was sent, a response with a status below 300 came back and its
  Content-Length header was read as an integer. When the request or getresponse
  raises, when the status is 300 or more, or when the header is missing or is not an
  integer, the files are left as they were and no file is opened. When the file is
  opened it comes after the request, and it then holds the bytes written in this
  attempt only.
\<close>

theorem file_only_after_good_response:
  "(OpenFile x \<in> set (fst (get_content a p f fs)) \<or> fst (snd (get_content a p f fs)) \<noteq> fs
      \<longrightarrow> request_raises a = None
          \<and> (\<exists>r h n. getresponse a = Inr r \<and> status r < 300
                       \<and> content_length_header r = Some h \<and> py_int h = Some n))
   \<and> (request_raises a \<noteq> None \<or> (\<exists>e. getresponse a = Inl e)
        \<or> (\<exists>r. getresponse a = Inr r \<and>
              (300 \<le> status r \<or> content_length_header r = None
               \<or> (\<exists>h. content_length_header r = Some h \<and> py_int h = None)))
      \<longrightarrow> fst (snd (get_content a p f fs)) = fs
          \<and> OpenFile f \<notin> set (fst (get_content a p f fs)))
   \<and> (request_raises a = None \<and> getresponse a = Inr r' \<and> status r' < 300
        \<and> content_length_header r' = Some h' \<and> py_int h' = Some n' \<and> open_raises a = None
      \<longrightarrow> fst (snd (get_content a p f fs)) = fs(f \<mapsto> snd (snd (read_loop (reads r') n' [])))
          \<and> take 4 (fst (get_content a p f fs))
              = [PrintSeparator, PrintItem p f, Request p, OpenFile f])"
proof (intro conjI impI)
  assume "OpenFile x \<in> set (fst (get_content a p f fs)) \<or> fst (snd (get_content a p f fs)) \<noteq> fs"
  then have "OpenFile x \<in> set (fst (try_body a p f fs)) \<or> fst (snd (try_body a p f fs)) \<noteq> fs"
    by (simp only: get_content_parts)
  from try_body_file [OF this]
  show "request_raises a = None" 
    and "\<exists>r h n. getresponse a = Inr r \<and> status r < 300
                       \<and> content_length_header r = Some h \<and> py_int h = Some n"
    by blast+
next
  assume h: "request_raises a \<noteq> None \<or> (\<exists>e. getresponse a = Inl e)
        \<or> (\<exists>r. getresponse a = Inr r \<and>
              (300 \<le> status r \<or> content_length_header r = None
               \<or> (\<exists>h. content_length_header r = Some h \<and> py_int h = None)))"
  from try_body_no_file [OF h, of p f fs]
  show "fst (snd (get_content a p f fs)) = fs" and "OpenFile f \<notin> set (fst (get_content a p f fs))"
    by (simp_all only: get_content_parts simp_thms)
next
  assume h: "request_raises a = None \<and> getresponse a = Inr r' \<and> status r' < 300
        \<and> content_length_header r' = Some h' \<and> py_int h' = Some n' \<and> open_raises a = None"
  then have h1: "request_raises a = None" and h2: "getresponse a = Inr r'"
    and h3: "status r' < 300" and h4: "content_length_header r' = Some h'"
    and h5: "py_int h' = Some n'" and h6: "open_raises a = None"
    by blast+
  have "fst (snd (try_body a p f fs)) = fs(f \<mapsto> snd (snd (read_loop (reads r') n' [])))"
    by (rule try_body_written [OF h1 h2 h3 h4 h5 h6])
  then show "fst (snd (get_content a p f fs)) = fs(f \<mapsto> snd (snd (read_loop (reads r') n' [])))"
    by (simp only: get_content_parts)
  from h show "take 4 (fst (get_content a p f fs)) = [PrintSeparator, PrintItem p f, Request p, OpenFile f]"
    unfolding get_content_def try_body_def
    by (auto split: option.splits sum.splits prod.splits if_splits)
qed

text \<open>
  C10, two instances: a response of ten bytes creates \<^verbatim>\<open>a1.jpg\<close> with these bytes; a
  404 leaves an older \<^verbatim>\<open>a1.jpg\<close> as it was.
\<close>

theorem file_only_after_good_response_witness:
  "OpenFile ''a1.jpg'' \<in> set (fst (get_content (answers (body_response 10 10)) ''/a1.jpg'' ''a1.jpg'' Map.empty))
   \<and> fst (snd (get_content (answers (body_response 10 10)) ''/a1.jpg'' ''a1.jpg'' Map.empty))
        = [''a1.jpg'' \<mapsto> replicate 10 CHR ''x'']
   \<and> 300 \<le> status not_found
   \<and> fst (snd (get_content (answers not_found) ''/a1.jpg'' ''a1.jpg'' [''a1.jpg'' \<mapsto> ''old'']))
        = [''a1.jpg'' \<mapsto> ''old'']
   \<and> OpenFile ''a1.jpg'' \<notin> set (fst (get_content (answers not_found) ''/a1.jpg'' ''a1.jpg''
                                         [''a1.jpg'' \<mapsto> ''old'']))"
proof -
  let ?good = "answers (body_response 10 10)"
  let ?bad = "answers not_found"
  have g: "request_raises ?good = None \<and> getresponse ?good = Inr (body_response 10 10)
        \<and> status (body_response 10 10) < 300
        \<and> content_length_header (body_response 10 10) = Some ''10'' \<and> py_int ''10'' = Some 10
        \<and> open_raises ?good = None"
    by code_simp
  have rl: "snd (snd (read_loop (reads (body_response 10 10)) 10 [])) = replicate 10 CHR ''x''"
    by (simp add: body_response_def)
  from file_only_after_good_response [of "''a1.jpg''" ?good "''/a1.jpg''" "''a1.jpg''" Map.empty
      "body_response 10 10" "''10''" 10] g
  have "fst (snd (get_content ?good ''/a1.jpg'' ''a1.jpg'' Map.empty))
          = [''a1.jpg'' \<mapsto> snd (snd (read_loop (reads (body_response 10 10)) 10 []))]"
    and t: "take 4 (fst (get_content ?good ''/a1.jpg'' ''a1.jpg'' Map.empty))
              = [PrintSeparator, PrintItem ''/a1.jpg'' ''a1.jpg'', Request ''/a1.jpg'', OpenFile ''a1.jpg'']"
    by blast+
  then have c2: "fst (snd (get_content ?good ''/a1.jpg'' ''a1.jpg'' Map.empty))
          = [''a1.jpg'' \<mapsto> replicate 10 CHR ''x'']"
    by (simp only: rl)
  have "OpenFile ''a1.jpg'' \<in> set (take 4 (fst (get_content ?good ''/a1.jpg'' ''a1.jpg'' Map.empty)))"
    by (simp only: t) simp
  then have c1: "OpenFile ''a1.jpg'' \<in> set (fst (get_content ?good ''/a1.jpg'' ''a1.jpg'' Map.empty))"
    by (rule in_set_takeD)
  have b: "300 \<le> status not_found" by (simp add: not_found_def)
  have b': "getresponse ?bad = Inr not_found" by (simp add: answers_def)
  from file_only_after_good_response [of "''a1.jpg''" ?bad "''/a1.jpg''" "''a1.jpg''"
      "[''a1.jpg'' \<mapsto> ''old'']"] b b'
  have c3: "fst (snd (get_content ?bad ''/a1.jpg'' ''a1.jpg'' [''a1.jpg'' \<mapsto> ''old'']))
        = [''a1.jpg'' \<mapsto> ''old'']"
    and c4: "OpenFile ''a1.jpg'' \<notin> set (fst (get_content ?bad ''/a1.jpg'' ''a1.jpg''
                                         [''a1.jpg'' \<mapsto> ''old'']))"
    by blast+
  show ?thesis by (intro conjI c1 c2 b c3 c4)
qed

subsection \<open>C4: a status of 300 or more\<close>




subsection \<open>C2: the reconnect comes first in the next item\<close>



end
